theory Spec2Isabelle
  imports Main
begin

section \<open>Data model\<close>

text \<open>
  The repository holds several variants of one small HTTP service. The ones modelled here
  are \<^verbatim>\<open>ban-md.js\<close> (with \<^verbatim>\<open>part_000\<close>, which differs from it in the QR wait bound, the
  wording of one message and a \<^verbatim>\<open>clearTimeout\<close> hook), \<^verbatim>\<open>server.js\<close>, and the \<^verbatim>\<open>/pair\<close>
  handler of \<^verbatim>\<open>part_003\<close>.

  The WhatsApp library (the Connection Provider) is not part of the repository. What it
  answers is an input of the model: whether each of its operations succeeds, which events a
  socket emits and when, and what \<^verbatim>\<open>sock.user\<close> holds. Every call the code makes on it is
  appended to a log, so that "the provider is not invoked" is a statement about the log.
\<close>

type_synonym sid = string
type_synonym sock = nat
type_synonym user = string

text \<open>The argument of a \<^verbatim>\<open>connection.update\<close> event: the two fields the code reads.\<close>

record update =
  u_qr :: "string option"
  u_connection :: "string option"

text \<open>
  JavaScript truthiness of a value that is a string, \<^verbatim>\<open>null\<close> or \<^verbatim>\<open>undefined\<close>:
  only a non-empty string is truthy.
\<close>

definition truthy :: "string option \<Rightarrow> bool" where
  "truthy v = (case v of None \<Rightarrow> False | Some s \<Rightarrow> s \<noteq> [])"

text \<open>
  The session object of \<^verbatim>\<open>ban-md.js\<close>:
  \<^verbatim>\<open>{ sock, lastQR: null, lastQRAt: 0, user: null, connection: "init" }\<close>.
  \<^verbatim>\<open>part_000\<close> keeps \<^verbatim>\<open>sentSessionMsg\<close> in place of the last two fields; no request
  handler reads any of the three.
\<close>

record session =
  s_sock :: sock
  lastQR :: "string option"
  lastQRAt :: int
  s_user :: "user option"
  s_connection :: string

text \<open>
  Calls made on the Connection Provider, in the order the code makes them.
  \<^verbatim>\<open>MakeWASocket i r\<close> is the call of \<^verbatim>\<open>makeWASocket\<close> with the credentials stored for
  identifier \<open>i\<close>; \<open>r\<close> is the socket it returned, or \<open>None\<close> when it threw.
\<close>

datatype pcall =
    UseMultiFileAuthState sid
  | FetchLatestBaileysVersion
  | MakeWASocket sid "sock option"
  | EvOn sock string
  | EvOnce sock string
  | RequestPairingCode sock string

text \<open>
  What the environment answers during one call of \<^verbatim>\<open>createSession\<close>: the identifier
  \<^verbatim>\<open>randomId()\<close> would return, whether each provider operation succeeds, and the identity
  the new socket carries from the persisted credentials (\<^verbatim>\<open>sock.user\<close>).
\<close>

record env =
  random_id :: sid
  auth_ok :: bool
  version_ok :: bool
  socket_ok :: bool
  creds_me :: "user option"

text \<open>
  The process-wide state of \<^verbatim>\<open>ban-md.js\<close>: the module-level \<^verbatim>\<open>sessions\<close> map, the
  \<^verbatim>\<open>user\<close> property of every socket made so far, the number of sockets made (a socket is
  identified by its serial number), and the log of provider calls.
\<close>

record world =
  sessions :: "sid \<rightharpoonup> session"
  sock_user :: "sock \<Rightarrow> user option"
  next_sock :: nat
  calls :: "pcall list"

definition world0 :: world where
  "world0 = \<lparr>sessions = Map.empty, sock_user = (\<lambda>_. None), next_sock = 0, calls = []\<rparr>"

section \<open>createSession (ban-md.js, part_000)\<close>

text \<open>
  \<^verbatim>\<open>createSession\<close> is an \<^verbatim>\<open>async\<close> function with two \<^verbatim>\<open>await\<close>s. A call is a task
  that is advanced one step at a time; between two steps any other task may run. A step is
  the code between two suspension points:
  \<^item> \<^verbatim>\<open>Called\<close>: \<^verbatim>\<open>id = sessionId || randomId()\<close> (written \<open>ident\<close> here), the lookup
    \<^verbatim>\<open>sessions.get(id)\<close> and, when there is no entry, the call of \<^verbatim>\<open>useMultiFileAuthState\<close>;
  \<^item> \<^verbatim>\<open>AwaitAuthState\<close>: the first \<^verbatim>\<open>await\<close> settles; \<^verbatim>\<open>fetchLatestBaileysVersion\<close> is called;
  \<^item> \<^verbatim>\<open>AwaitVersion\<close>: the second \<^verbatim>\<open>await\<close> settles; \<^verbatim>\<open>makeWASocket\<close>, the new session
    object, \<^verbatim>\<open>sessions.set\<close>, the two \<^verbatim>\<open>sock.ev.on\<close> and the \<^verbatim>\<open>return\<close>.
  A rejected \<^verbatim>\<open>await\<close> or a throwing \<^verbatim>\<open>makeWASocket\<close> ends the task in \<^verbatim>\<open>Thrown\<close>.
  The value returned is \<^verbatim>\<open>{ id, ...s }\<close>, a copy of the entry's fields.
  The test \<^verbatim>\<open>s && s.sock\<close> is that of an entry being there: every entry has a socket.
\<close>

datatype task =
    Called "string option"
  | AwaitAuthState sid
  | AwaitVersion sid
  | Returned sid session
  | Thrown

definition or_random :: "string option \<Rightarrow> env \<Rightarrow> sid" where
  "or_random p e = (if truthy p then the p else random_id e)"

definition new_session :: "sock \<Rightarrow> session" where
  "new_session k = \<lparr>s_sock = k, lastQR = None, lastQRAt = 0, s_user = None, s_connection = ''init''\<rparr>"

fun cs_step :: "env \<Rightarrow> task \<Rightarrow> world \<Rightarrow> task \<times> world" where
  "cs_step e (Called p) w =
     (let ident = or_random p e in
      case sessions w ident of
        Some s \<Rightarrow> (Returned ident s, w)
      | None \<Rightarrow> (AwaitAuthState ident, w\<lparr>calls := calls w @ [UseMultiFileAuthState ident]\<rparr>))"
| "cs_step e (AwaitAuthState ident) w =
     (if auth_ok e
      then (AwaitVersion ident, w\<lparr>calls := calls w @ [FetchLatestBaileysVersion]\<rparr>)
      else (Thrown, w))"
| "cs_step e (AwaitVersion ident) w =
     (if \<not> version_ok e then (Thrown, w)
      else if \<not> socket_ok e then (Thrown, w\<lparr>calls := calls w @ [MakeWASocket ident None]\<rparr>)
      else
        let k = next_sock w; s = new_session k in
        (Returned ident s,
         w\<lparr>sessions := (sessions w)(ident \<mapsto> s),
           sock_user := (sock_user w)(k := creds_me e),
           next_sock := Suc k,
           calls := calls w @ [MakeWASocket ident (Some k), EvOn k ''creds.update'', EvOn k ''connection.update'']\<rparr>))"
| "cs_step e (Returned ident s) w = (Returned ident s, w)"
| "cs_step e Thrown w = (Thrown, w)"

text \<open>A call that runs to its end with no other task in between.\<close>

definition createSession :: "env \<Rightarrow> string option \<Rightarrow> world \<Rightarrow> task \<times> world" where
  "createSession e p w =
     (let (t1, w1) = cs_step e (Called p) w;
          (t2, w2) = cs_step e t1 w1
      in cs_step e t2 w2)"

text \<open>
  Several calls in flight: a schedule names, at each step, the task that runs next and what
  the environment answers to it.
\<close>

fun run_tasks :: "(nat \<times> env) list \<Rightarrow> task list \<times> world \<Rightarrow> task list \<times> world" where
  "run_tasks [] tw = tw"
| "run_tasks ((i, e) # sch) (ts, w) =
     (if i < length ts
      then (let (t', w') = cs_step e (ts ! i) w in run_tasks sch (ts[i := t'], w'))
      else run_tasks sch (ts, w))"

text \<open>The number of connection handles made so far for one identifier.\<close>

fun made_for :: "sid \<Rightarrow> pcall \<Rightarrow> bool" where
  "made_for ident (MakeWASocket i (Some k)) = (i = ident)"
| "made_for ident _ = False"

definition sockets_for :: "sid \<Rightarrow> pcall list \<Rightarrow> nat" where
  "sockets_for ident cs = length (filter (made_for ident) cs)"

text \<open>
  The listener \<^verbatim>\<open>createSession\<close> registers for \<^verbatim>\<open>connection.update\<close> on socket \<open>k\<close> of
  session \<open>ident\<close>. It writes to the object \<^verbatim>\<open>s\<close> of its closure, which is the registry's entry
  for \<open>ident\<close> as long as that entry still holds socket \<open>k\<close>; an object that a later
  \<^verbatim>\<open>sessions.set\<close> has replaced is reachable from nowhere else. \<open>now\<close> is \<^verbatim>\<open>Date.now()\<close>.
  This is the listener of \<^verbatim>\<open>ban-md.js\<close>; that of \<^verbatim>\<open>part_000\<close> writes \<^verbatim>\<open>lastQR\<close> and
  \<^verbatim>\<open>lastQRAt\<close> in the same way (and sends a chat message once the connection is open).
\<close>

definition on_connection_update :: "sid \<Rightarrow> sock \<Rightarrow> update \<Rightarrow> int \<Rightarrow> world \<Rightarrow> world" where
  "on_connection_update ident k u now w =
     (case sessions w ident of
        None \<Rightarrow> w
      | Some s \<Rightarrow>
          if s_sock s \<noteq> k then w
          else
            let s1 = (if truthy (u_qr u) then s\<lparr>lastQR := u_qr u, lastQRAt := now\<rparr> else s);
                s2 = (if truthy (u_connection u) then s1\<lparr>s_connection := the (u_connection u)\<rparr> else s1);
                s3 = (if sock_user w k \<noteq> None then s2\<lparr>s_user := sock_user w k\<rparr> else s2)
            in w\<lparr>sessions := (sessions w)(ident \<mapsto> s3)\<rparr>)"

section \<open>createSession (server.js)\<close>

text \<open>
  In \<^verbatim>\<open>server.js\<close> the registry maps an identifier to the socket itself, the parameter
  defaults to \<^verbatim>\<open>"session1"\<close> when it is \<^verbatim>\<open>undefined\<close>, the listeners are registered before
  \<^verbatim>\<open>sessions.set\<close>, and the \<^verbatim>\<open>connection.update\<close> listener deletes the entry on close.
\<close>

record sworld =
  ssessions :: "sid \<rightharpoonup> sock"
  snext_sock :: nat
  scalls :: "pcall list"

datatype stask =
    SCalled "string option"
  | SAwaitAuthState sid
  | SAwaitVersion sid
  | SReturned sock
  | SThrown

fun scs_step :: "env \<Rightarrow> stask \<Rightarrow> sworld \<Rightarrow> stask \<times> sworld" where
  "scs_step e (SCalled p) w =
     (let sessionId = (case p of None \<Rightarrow> ''session1'' | Some s \<Rightarrow> s) in
      case ssessions w sessionId of
        Some k \<Rightarrow> (SReturned k, w)
      | None \<Rightarrow> (SAwaitAuthState sessionId, w\<lparr>scalls := scalls w @ [UseMultiFileAuthState sessionId]\<rparr>))"
| "scs_step e (SAwaitAuthState sessionId) w =
     (if auth_ok e
      then (SAwaitVersion sessionId, w\<lparr>scalls := scalls w @ [FetchLatestBaileysVersion]\<rparr>)
      else (SThrown, w))"
| "scs_step e (SAwaitVersion sessionId) w =
     (if \<not> version_ok e then (SThrown, w)
      else if \<not> socket_ok e then (SThrown, w\<lparr>scalls := scalls w @ [MakeWASocket sessionId None]\<rparr>)
      else
        let k = snext_sock w in
        (SReturned k,
         w\<lparr>ssessions := (ssessions w)(sessionId \<mapsto> k),
           snext_sock := Suc k,
           scalls := scalls w @ [MakeWASocket sessionId (Some k), EvOn k ''creds.update'', EvOn k ''connection.update'']\<rparr>))"
| "scs_step e (SReturned k) w = (SReturned k, w)"
| "scs_step e SThrown w = (SThrown, w)"

definition createSession_server :: "env \<Rightarrow> string option \<Rightarrow> sworld \<Rightarrow> stask \<times> sworld" where
  "createSession_server e p w =
     (let (t1, w1) = scs_step e (SCalled p) w;
          (t2, w2) = scs_step e t1 w1
      in scs_step e t2 w2)"

text \<open>
  The \<^verbatim>\<open>connection.update\<close> listener of \<^verbatim>\<open>server.js\<close>, registered for session
  \<open>sessionId\<close>: \<^verbatim>\<open>if (connection === "close") sessions.delete(sessionId)\<close>. The other branch
  only logs to the console.
\<close>

definition on_connection_update_server :: "sid \<Rightarrow> update \<Rightarrow> sworld \<Rightarrow> sworld" where
  "on_connection_update_server sessionId u w =
     (if u_connection u = Some ''close''
      then w\<lparr>ssessions := (ssessions w)(sessionId := None)\<rparr>
      else w)"

section \<open>Replies and the state of one request\<close>

text \<open>
  A reply is one call of \<^verbatim>\<open>res.json\<close> (or \<^verbatim>\<open>res.status(..).json\<close>), by the body it is
  given. The \<^verbatim>\<open>sessionId\<close> field that \<^verbatim>\<open>ban-md.js\<close> and \<^verbatim>\<open>part_000\<close> echo in every
  body is left out. \<^verbatim>\<open>ReplyQR q\<close> is \<^verbatim>\<open>{ qr: <data URL of q> }\<close>, the image being the
  encoding of payload \<open>q\<close> by the \<^verbatim>\<open>qrcode\<close> package.
  The HTTP framework is outside the repository: it writes the first reply of a request to
  the client, and a further call of \<^verbatim>\<open>res.json\<close> for the same request is an error there.
  The model records every call the handlers make.
\<close>

datatype reply =
    ReplyQR string
  | ReplyLoggedIn string "user option"
  | ReplyError string
  | ReplyCode string
  | ReplyConnected
  | ReplyNotOk "string option"

datatype variant = BanMd | Part000

text \<open>The second argument of \<^verbatim>\<open>setTimeout\<close> in the QR handler, in milliseconds.\<close>

fun qr_timeout :: "variant \<Rightarrow> int" where
  "qr_timeout BanMd = 10000"
| "qr_timeout Part000 = 25000"

fun login_msg :: "variant \<Rightarrow> string" where
  "login_msg BanMd = ''Already logged in''"
| "login_msg Part000 = ''Logged in''"

fun phone_msg :: "variant \<Rightarrow> string" where
  "phone_msg BanMd = ''Valid phone required (include country code, digits only)''"
| "phone_msg Part000 = ''Valid phone required (include country code digits only)''"

definition qr_wait_msg :: string where
  "qr_wait_msg = ''QR not available yet. Tap again.''"

text \<open>
  An \<^verbatim>\<open>await qrcode.toDataURL(..)\<close> that has not settled yet: that of the cached payload, or
  that of the wait handler, which resumes with the rest of its body for update \<open>u\<close>.
\<close>

datatype pending = EncodeCached string | EncodeEvent update

text \<open>
  The state of one QR request:
  \<^item> \<open>responded\<close>: the handler's local flag \<^verbatim>\<open>responded\<close>;
  \<^item> \<open>registered\<close>: whether \<^verbatim>\<open>handler\<close> is a listener of the socket's \<^verbatim>\<open>connection.update\<close>;
  \<^item> \<open>timer\<close>: the instant the pending \<^verbatim>\<open>setTimeout\<close> callback is due, if one is pending;
  \<^item> \<open>awaited\<close>: the encodings awaited, oldest first;
  \<^item> \<open>r_user\<close>: the socket's \<^verbatim>\<open>user\<close> property, as the provider last set it;
  \<^item> \<open>sent\<close>: the replies made so far, each with the instant it was made.
\<close>

record req =
  responded :: bool
  registered :: bool
  timer :: "int option"
  awaited :: "pending list"
  r_user :: "user option"
  sent :: "(int \<times> reply) list"

definition req0 :: "user option \<Rightarrow> req" where
  "req0 usr = \<lparr>responded = False, registered = False, timer = None, awaited = [],
               r_user = usr, sent = []\<rparr>"

text \<open>
  What happens to a request while it waits: the socket emits \<^verbatim>\<open>connection.update\<close>, an
  awaited encoding settles (resolved or rejected), or the provider sets \<^verbatim>\<open>sock.user\<close>.
  Each event carries the instant it is handled; a timer that is due by then runs first.
\<close>

datatype event =
    ConnectionUpdate update
  | Encoded bool
  | UserIs "user option"

section \<open>The QR request of ban-md.js and part_000\<close>

definition reply_json :: "int \<Rightarrow> reply \<Rightarrow> req \<Rightarrow> req" where
  "reply_json t rep r = r\<lparr>sent := sent r @ [(t, rep)]\<rparr>"

text \<open>
  \<^verbatim>\<open>part_000\<close> adds \<^verbatim>\<open>res.on("finish", () => clearTimeout(t))\<close>. The response finishes
  once the first reply is written out; the model clears the timer with the reply itself.
  By then the timer's callback could no longer reply in any case.
\<close>

definition send :: "variant \<Rightarrow> int \<Rightarrow> reply \<Rightarrow> req \<Rightarrow> req" where
  "send v t rep r =
     (let r' = reply_json t rep r in
      if v = Part000 \<and> timer r' \<noteq> None then r'\<lparr>timer := None\<rparr> else r')"

text \<open>
  The wait handler, in two parts: the body up to the \<^verbatim>\<open>await\<close> of its first branch, and
  its second \<^verbatim>\<open>if\<close>, which runs at once when the first branch is not taken and after the
  reply when it is.
  \<^verbatim>\<open>
  const handler = async (update) => {
    if (update.qr && !responded) {
      responded = true;
      const qrImage = await qrcode.toDataURL(update.qr);
      res.json({ qr: qrImage, sessionId: id });
    }
    if (update.connection === "open" && !responded) {
      responded = true;
      res.json({ message: "Already logged in", user: sock.user, sessionId: id });
    }
  };
  \<close>
\<close>

definition handler_open :: "variant \<Rightarrow> int \<Rightarrow> update \<Rightarrow> req \<Rightarrow> req" where
  "handler_open v t u r =
     (if u_connection u = Some ''open'' \<and> \<not> responded r
      then send v t (ReplyLoggedIn (login_msg v) (r_user r)) (r\<lparr>responded := True\<rparr>)
      else r)"

definition handler :: "variant \<Rightarrow> int \<Rightarrow> update \<Rightarrow> req \<Rightarrow> req" where
  "handler v t u r =
     (if truthy (u_qr u) \<and> \<not> responded r
      then r\<lparr>responded := True, awaited := awaited r @ [EncodeEvent u]\<rparr>
      else handler_open v t u r)"

text \<open>
  An awaited encoding settles. When it resolves the reply is made and the function goes
  on; when it rejects, the \<^verbatim>\<open>async\<close> function ends there with a rejected promise.
\<close>

definition resume :: "variant \<Rightarrow> int \<Rightarrow> bool \<Rightarrow> req \<Rightarrow> req" where
  "resume v t ok r =
     (case awaited r of
        [] \<Rightarrow> r
      | EncodeCached q # ps \<Rightarrow>
          (if ok then send v t (ReplyQR q) (r\<lparr>awaited := ps\<rparr>) else r\<lparr>awaited := ps\<rparr>)
      | EncodeEvent u # ps \<Rightarrow>
          (if ok then handler_open v t u (send v t (ReplyQR (the (u_qr u))) (r\<lparr>awaited := ps\<rparr>))
           else r\<lparr>awaited := ps\<rparr>))"

text \<open>
  The timer's callback:
  \<^verbatim>\<open>if (!responded) res.json({ error: "QR not available yet. Tap again.", sessionId: id })\<close>.
\<close>

definition timeout_cb :: "variant \<Rightarrow> int \<Rightarrow> req \<Rightarrow> req" where
  "timeout_cb v t r =
     (if \<not> responded r then send v t (ReplyError qr_wait_msg) r else r)"

text \<open>A timer that is due at instant \<open>t\<close> or earlier runs, at the instant it is due.\<close>

definition fire_due :: "variant \<Rightarrow> int \<Rightarrow> req \<Rightarrow> req" where
  "fire_due v t r =
     (case timer r of
        None \<Rightarrow> r
      | Some d \<Rightarrow> if d \<le> t then timeout_cb v d (r\<lparr>timer := None\<rparr>) else r)"

text \<open>
  One event. The handler was registered with \<^verbatim>\<open>once\<close>: the first \<^verbatim>\<open>connection.update\<close>
  removes it and then calls it, whatever the update holds.
\<close>

fun on_event :: "variant \<Rightarrow> int \<Rightarrow> event \<Rightarrow> req \<Rightarrow> req" where
  "on_event v t (ConnectionUpdate u) r =
     (if registered r then handler v t u (r\<lparr>registered := False\<rparr>) else r)"
| "on_event v t (Encoded ok) r = resume v t ok r"
| "on_event v t (UserIs usr) r = r\<lparr>r_user := usr\<rparr>"

fun run :: "variant \<Rightarrow> (int \<times> event) list \<Rightarrow> req \<Rightarrow> req" where
  "run v [] r = r"
| "run v ((t, ev) # es) r = run v es (on_event v t ev (fire_due v t r))"

text \<open>The request as it stands at instant \<open>T\<close>, after the events of a trace.\<close>

definition run_until :: "variant \<Rightarrow> int \<Rightarrow> (int \<times> event) list \<Rightarrow> req \<Rightarrow> req" where
  "run_until v T es r = fire_due v T (run v es r)"

text \<open>
  The route handler up to the point where it returns or starts to wait. \<open>p\<close> is
  \<^verbatim>\<open>req.params.sessionId\<close> and \<open>now\<close> is \<^verbatim>\<open>Date.now()\<close>.
  \<^verbatim>\<open>
  const wantedId = req.params.sessionId && req.params.sessionId !== "new" ? req.params.sessionId : null;
  const { id, sock, lastQR, lastQRAt } = await createSession(wantedId);
  if (sock.user) return res.json({ message: "Already logged in", user: sock.user, sessionId: id });
  if (lastQR && Date.now() - lastQRAt < 60_000) {
    const qrImage = await qrcode.toDataURL(lastQR);
    return res.json({ qr: qrImage, sessionId: id });
  }
  let responded = false;
  const handler = ...;
  sock.ev.once("connection.update", handler);
  setTimeout(() => { ... }, 10_000);
  \<close>
  When \<^verbatim>\<open>createSession\<close> throws, the handler's promise rejects and nothing is sent.
\<close>

definition wanted_id :: "string option \<Rightarrow> string option" where
  "wanted_id p = (if truthy p \<and> p \<noteq> Some ''new'' then p else None)"

definition getQR :: "variant \<Rightarrow> env \<Rightarrow> string option \<Rightarrow> int \<Rightarrow> world \<Rightarrow> req \<times> world" where
  "getQR v e p now w =
     (let wantedId = wanted_id p in
      case createSession e wantedId w of
        (Returned ident s, w') \<Rightarrow>
          let k = s_sock s; usr = sock_user w' k in
          if usr \<noteq> None
          then (reply_json now (ReplyLoggedIn (login_msg v) usr) (req0 usr), w')
          else if truthy (lastQR s) \<and> now - lastQRAt s < 60000
          then ((req0 usr)\<lparr>awaited := [EncodeCached (the (lastQR s))]\<rparr>, w')
          else ((req0 usr)\<lparr>registered := True, timer := Some (now + qr_timeout v)\<rparr>,
                w'\<lparr>calls := calls w' @ [EvOnce k ''connection.update'']\<rparr>)
      | (_, w') \<Rightarrow> (req0 None, w'))"

text \<open>The updates a trace delivers, and the invariant that ties QR replies to them.\<close>

fun updates_of :: "(int \<times> event) list \<Rightarrow> update list" where
  "updates_of [] = []"
| "updates_of ((t, ConnectionUpdate u) # es) = u # updates_of es"
| "updates_of ((t, ev) # es) = updates_of es"

definition from_updates :: "update set \<Rightarrow> req \<Rightarrow> bool" where
  "from_updates U r =
     ((\<forall>p \<in> set (awaited r). \<exists>u \<in> U. p = EncodeEvent u \<and> truthy (u_qr u))
      \<and> (\<forall>x \<in> set (sent r). \<forall>q. snd x = ReplyQR q \<longrightarrow> (\<exists>u \<in> U. u_qr u = Some q)))"

text \<open>
  An event that neither carries a QR payload nor reports the connection open: the wait
  handler does not reply to it.
\<close>

fun quiet :: "event \<Rightarrow> bool" where
  "quiet (ConnectionUpdate u) = (\<not> truthy (u_qr u) \<and> u_connection u \<noteq> Some ''open'')"
| "quiet (Encoded ok) = True"
| "quiet (UserIs usr) = True"

text \<open>
  A request whose handler is still a listener of the socket and would still reply: the
  handler's two branches are both guarded by \<^verbatim>\<open>!responded\<close>.
\<close>

definition live :: "req \<Rightarrow> bool" where
  "live r = (registered r \<and> \<not> responded r)"

text \<open>
  QR requests made one after the other at the given instants, and the number of their
  handlers that are live at instant \<open>T\<close> when the socket has emitted nothing.
\<close>

fun poll :: "variant \<Rightarrow> env \<Rightarrow> string option \<Rightarrow> int list \<Rightarrow> world \<Rightarrow> req list" where
  "poll v e p [] w = []"
| "poll v e p (now # ts) w = fst (getQR v e p now w) # poll v e p ts (snd (getQR v e p now w))"

definition live_listeners :: "variant \<Rightarrow> int \<Rightarrow> req list \<Rightarrow> nat" where
  "live_listeners v T rs = length (filter live (map (run_until v T []) rs))"

text \<open>Every cached payload of the registry is a non-empty string.\<close>

definition cache_ok :: "world \<Rightarrow> bool" where
  "cache_ok w = (\<forall>i s. sessions w i = Some s \<longrightarrow> lastQR s = None \<or> truthy (lastQR s))"

text \<open>A request that waits with its timer due at \<open>d\<close> and has not replied.\<close>

definition waiting :: "int \<Rightarrow> req \<Rightarrow> bool" where
  "waiting d r = (\<not> responded r \<and> awaited r = [] \<and> sent r = [] \<and> timer r = Some d)"

text \<open>
  The latch of \<^verbatim>\<open>server.js\<close>: nothing is sent or awaited before \<^verbatim>\<open>responded\<close> is set;
  once it is set, exactly one reply has been sent or is about to be (its encoding is
  awaited), and a request that has replied is no longer a listener.
\<close>

definition latched :: "req \<Rightarrow> bool" where
  "latched r =
     ((\<not> responded r \<longrightarrow> sent r = [] \<and> awaited r = [])
      \<and> (responded r \<longrightarrow> length (sent r) + length (awaited r) = 1)
      \<and> (responded r \<and> awaited r = [] \<longrightarrow> \<not> registered r)
      \<and> (\<forall>p \<in> set (awaited r). \<exists>u. p = EncodeEvent u))"

section \<open>The QR request of server.js\<close>

text \<open>
  \<^verbatim>\<open>
  const handler = async (u) => {
    if (u.qr && !responded) {
      responded = true;
      try { const png = await QRCode.toDataURL(u.qr); res.json({ ok: true, qr: png }); }
      catch (e) { res.status(500).json({ ok: false, error: "Failed to encode QR" }); }
      finally { sock.ev.off("connection.update", handler); }
    }
    if (u.connection === "open" && !responded) {
      responded = true;
      res.json({ ok: true, connected: true });
      sock.ev.off("connection.update", handler);
    }
  };
  sock.ev.on("connection.update", handler);
  setTimeout(() => {
    if (!responded) {
      responded = true;
      res.status(504).json({ ok: false, error: "QR timeout" });
      sock.ev.off("connection.update", handler);
    }
  }, 10000);
  \<close>
\<close>

definition handler_open_server :: "int \<Rightarrow> update \<Rightarrow> req \<Rightarrow> req" where
  "handler_open_server t u r =
     (if u_connection u = Some ''open'' \<and> \<not> responded r
      then (reply_json t ReplyConnected (r\<lparr>responded := True\<rparr>))\<lparr>registered := False\<rparr>
      else r)"

definition handler_server :: "int \<Rightarrow> update \<Rightarrow> req \<Rightarrow> req" where
  "handler_server t u r =
     (if truthy (u_qr u) \<and> \<not> responded r
      then r\<lparr>responded := True, awaited := awaited r @ [EncodeEvent u]\<rparr>
      else handler_open_server t u r)"

definition resume_server :: "int \<Rightarrow> bool \<Rightarrow> req \<Rightarrow> req" where
  "resume_server t ok r =
     (case awaited r of
        [] \<Rightarrow> r
      | EncodeCached q # ps \<Rightarrow> r\<lparr>awaited := ps\<rparr>
      | EncodeEvent u # ps \<Rightarrow>
          (let r1 = reply_json t (if ok then ReplyQR (the (u_qr u)) else ReplyError ''Failed to encode QR'')
                      (r\<lparr>awaited := ps\<rparr>)
           in handler_open_server t u (r1\<lparr>registered := False\<rparr>)))"

definition timeout_cb_server :: "int \<Rightarrow> req \<Rightarrow> req" where
  "timeout_cb_server t r =
     (if \<not> responded r
      then (reply_json t (ReplyError ''QR timeout'') (r\<lparr>responded := True\<rparr>))\<lparr>registered := False\<rparr>
      else r)"

definition fire_due_server :: "int \<Rightarrow> req \<Rightarrow> req" where
  "fire_due_server t r =
     (case timer r of
        None \<Rightarrow> r
      | Some d \<Rightarrow> if d \<le> t then timeout_cb_server d (r\<lparr>timer := None\<rparr>) else r)"

text \<open>The handler was registered with \<^verbatim>\<open>on\<close>: it stays a listener until \<^verbatim>\<open>off\<close>.\<close>

fun on_event_server :: "int \<Rightarrow> event \<Rightarrow> req \<Rightarrow> req" where
  "on_event_server t (ConnectionUpdate u) r =
     (if registered r then handler_server t u r else r)"
| "on_event_server t (Encoded ok) r = resume_server t ok r"
| "on_event_server t (UserIs usr) r = r\<lparr>r_user := usr\<rparr>"

fun run_server :: "(int \<times> event) list \<Rightarrow> req \<Rightarrow> req" where
  "run_server [] r = r"
| "run_server ((t, ev) # es) r = run_server es (on_event_server t ev (fire_due_server t r))"

text \<open>
  The route handler of \<^verbatim>\<open>server.js\<close>: neither \<^verbatim>\<open>sock.user\<close> nor a cache is consulted.
\<close>

definition getQR_server :: "env \<Rightarrow> sid \<Rightarrow> int \<Rightarrow> sworld \<Rightarrow> req \<times> sworld" where
  "getQR_server e sessionId now w =
     (case createSession_server e (Some sessionId) w of
        (SReturned k, w') \<Rightarrow>
          ((req0 None)\<lparr>registered := True, timer := Some (now + 10000)\<rparr>,
           w'\<lparr>scalls := scalls w' @ [EvOn k ''connection.update'']\<rparr>)
      | (_, w') \<Rightarrow> (req0 None, w'))"

section \<open>The pairing-code request\<close>

definition digit :: "char \<Rightarrow> bool" where
  "digit c = (c \<in> set ''0123456789'')"

text \<open>\<^verbatim>\<open>s.replace(/\D/g, "")\<close>\<close>

definition strip_non_digits :: "string \<Rightarrow> string" where
  "strip_non_digits s = filter digit s"

text \<open>
  \<^verbatim>\<open>ban-md.js\<close> and \<^verbatim>\<open>part_000\<close>. \<open>answer\<close> is what \<^verbatim>\<open>sock.requestPairingCode\<close> settles
  with: the code, or the \<^verbatim>\<open>message\<close> of the error it rejects with.
  \<^verbatim>\<open>
  const clean = (phone + "").replace(/\D/g, "");
  if (!clean) return res.json({ error: "Valid phone required (include country code, digits only)" });
  const { id, sock } = await createSession(sessionId);
  if (sock.user) return res.json({ message: "Already logged in", user: sock.user, sessionId: id });
  try {
    const code = await sock.requestPairingCode(clean);
    return res.json({ code, sessionId: id });
  } catch (e) {
    return res.json({ error: e.message || "Failed to generate code", sessionId: id });
  }
  \<close>
\<close>

definition pair :: "variant \<Rightarrow> env \<Rightarrow> sid \<Rightarrow> string \<Rightarrow> (string option + string) \<Rightarrow> world
    \<Rightarrow> reply option \<times> world" where
  "pair v e sessionId phone answer w =
     (let clean = strip_non_digits phone in
      if clean = [] then (Some (ReplyError (phone_msg v)), w)
      else
        case createSession e (Some sessionId) w of
          (Returned ident s, w') \<Rightarrow>
            let k = s_sock s in
            if sock_user w' k \<noteq> None
            then (Some (ReplyLoggedIn ''Already logged in'' (sock_user w' k)), w')
            else
              let w'' = w'\<lparr>calls := calls w' @ [RequestPairingCode k clean]\<rparr> in
              (case answer of
                 Inr code \<Rightarrow> (Some (ReplyCode code), w'')
               | Inl m \<Rightarrow> (Some (ReplyError (if truthy m then the m else ''Failed to generate code'')), w''))
        | (_, w') \<Rightarrow> (None, w'))"

text \<open>
  \<^verbatim>\<open>part_003\<close>, route \<^verbatim>\<open>/pair\<close>:
  \<^verbatim>\<open>
  const phone = req.query.phone;
  if (!phone) return res.json({ ok: false, message: "Phone number required" });
  const s = await createSession(sessionId);
  if (typeof s.sock.requestPairingCode === "function") {
    try {
      let raw = await s.sock.requestPairingCode(phone);
      const code8 = raw.replace(/\D/g, "").padEnd(8, "0").slice(0, 8);
      return res.json({ ok: true, code: code8, message: "..." });
    } catch (e) { return res.json({ ok: false, message: e.message }); }
  } else { return res.json({ ok: false, message: "Pairing code not supported ..." }); }
  \<close>
  \<open>created\<close> says whether \<^verbatim>\<open>createSession\<close> returned, \<open>supported\<close> is the \<^verbatim>\<open>typeof\<close> test.
\<close>

definition padEnd :: "nat \<Rightarrow> char \<Rightarrow> string \<Rightarrow> string" where
  "padEnd n c s = s @ replicate (n - length s) c"

definition code8 :: "string \<Rightarrow> string" where
  "code8 raw = take 8 (padEnd 8 (CHR ''0'') (strip_non_digits raw))"

definition pair_part003 :: "string option \<Rightarrow> bool \<Rightarrow> bool \<Rightarrow> (string option + string) \<Rightarrow> reply option" where
  "pair_part003 phone created supported answer =
     (if \<not> truthy phone then Some (ReplyNotOk (Some ''Phone number required''))
      else if \<not> created then None
      else if supported then
        (case answer of
           Inr raw \<Rightarrow> Some (ReplyCode (code8 raw))
         | Inl m \<Rightarrow> Some (ReplyNotOk m))
      else Some (ReplyNotOk (Some ''Pairing code not supported by this Baileys version. Use QR login.'')))"

section \<open>Runs without interleaving\<close>

text \<open>
  What \<^verbatim>\<open>ban-md.js\<close> does to its registry when no two calls of \<^verbatim>\<open>createSession\<close>
  overlap: a sequence of whole calls and of \<^verbatim>\<open>connection.update\<close> events delivered to the
  listener that \<^verbatim>\<open>createSession\<close> registered.
\<close>

datatype action =
    Create env "string option"
  | Emit sid sock update int

fun act :: "action \<Rightarrow> world \<Rightarrow> world" where
  "act (Create e p) w = snd (createSession e p w)"
| "act (Emit ident k u now) w = on_connection_update ident k u now w"

fun seq_run :: "action list \<Rightarrow> world \<Rightarrow> world" where
  "seq_run [] w = w"
| "seq_run (a # as) w = seq_run as (act a w)"

text \<open>
  The invariant of such runs: the log holds one made socket for an identifier that has an
  entry and none for an identifier that has no entry.
\<close>

definition one_each :: "sid \<Rightarrow> world \<Rightarrow> bool" where
  "one_each i w = (sockets_for i (calls w) = (if sessions w i = None then 0 else 1))"

section \<open>Concrete inputs\<close>

definition env_ok :: env where
  "env_ok = \<lparr>random_id = ''ban-0a1b2c3d'', auth_ok = True, version_ok = True, socket_ok = True,
             creds_me = None\<rparr>"

definition env_down :: env where
  "env_down = env_ok\<lparr>auth_ok := False\<rparr>"

definition env_me :: env where
  "env_me = env_ok\<lparr>creds_me := Some ''256700000000@s.whatsapp.net''\<rparr>"

definition sworld0 :: sworld where
  "sworld0 = \<lparr>ssessions = Map.empty, snext_sock = 0, scalls = []\<rparr>"

text \<open>A registry with one session, \<^verbatim>\<open>"s1"\<close>, whose socket came up logged in.\<close>

definition world_me :: world where
  "world_me = snd (createSession env_me (Some ''s1'') world0)"

text \<open>A registry with one session, \<^verbatim>\<open>"s1"\<close>, not logged in, that cached payload \<^verbatim>\<open>"Q1"\<close> at instant 1000.\<close>

definition world_qr :: world where
  "world_qr = seq_run [Create env_ok (Some ''s1''),
                       Emit ''s1'' 0 \<lparr>u_qr = Some ''Q1'', u_connection = None\<rparr> 1000] world0"

text \<open>Two calls for one identifier, advanced in turn: each passes the lookup before either stores.\<close>

definition race :: "task list \<times> world" where
  "race = run_tasks [(0, env_ok), (1, env_ok), (0, env_ok), (1, env_ok), (0, env_ok), (1, env_ok)]
            ([Called (Some ''s1''), Called (Some ''s1'')], world0)"

section \<open>Session construction: results\<close>

lemma createSession_unfold:
  "createSession e p w =
     (let ident = or_random p e in
      case sessions w ident of
        Some s \<Rightarrow> (Returned ident s, w)
      | None \<Rightarrow>
          if \<not> auth_ok e then (Thrown, w\<lparr>calls := calls w @ [UseMultiFileAuthState ident]\<rparr>)
          else if \<not> version_ok e
          then (Thrown, w\<lparr>calls := calls w @ [UseMultiFileAuthState ident, FetchLatestBaileysVersion]\<rparr>)
          else if \<not> socket_ok e
          then (Thrown, w\<lparr>calls := calls w @ [UseMultiFileAuthState ident, FetchLatestBaileysVersion,
                                              MakeWASocket ident None]\<rparr>)
          else (Returned ident (new_session (next_sock w)),
                w\<lparr>sessions := (sessions w)(ident \<mapsto> new_session (next_sock w)),
                  sock_user := (sock_user w)(next_sock w := creds_me e),
                  next_sock := Suc (next_sock w),
                  calls := calls w @ [UseMultiFileAuthState ident, FetchLatestBaileysVersion,
                    MakeWASocket ident (Some (next_sock w)), EvOn (next_sock w) ''creds.update'',
                    EvOn (next_sock w) ''connection.update'']\<rparr>))"
  by (simp add: createSession_def Let_def split: option.splits)

lemma createSession_server_unfold:
  "createSession_server e p w =
     (let sessionId = (case p of None \<Rightarrow> ''session1'' | Some s \<Rightarrow> s) in
      case ssessions w sessionId of
        Some k \<Rightarrow> (SReturned k, w)
      | None \<Rightarrow>
          if \<not> auth_ok e then (SThrown, w\<lparr>scalls := scalls w @ [UseMultiFileAuthState sessionId]\<rparr>)
          else if \<not> version_ok e
          then (SThrown, w\<lparr>scalls := scalls w @ [UseMultiFileAuthState sessionId, FetchLatestBaileysVersion]\<rparr>)
          else if \<not> socket_ok e
          then (SThrown, w\<lparr>scalls := scalls w @ [UseMultiFileAuthState sessionId, FetchLatestBaileysVersion,
                                                 MakeWASocket sessionId None]\<rparr>)
          else (SReturned (snext_sock w),
                w\<lparr>ssessions := (ssessions w)(sessionId \<mapsto> snext_sock w),
                  snext_sock := Suc (snext_sock w),
                  scalls := scalls w @ [UseMultiFileAuthState sessionId, FetchLatestBaileysVersion,
                    MakeWASocket sessionId (Some (snext_sock w)), EvOn (snext_sock w) ''creds.update'',
                    EvOn (snext_sock w) ''connection.update'']\<rparr>))"
  by (simp add: createSession_server_def Let_def split: option.splits)

text \<open>A whole call ends in one of two ways: it returns or it throws.\<close>

lemma createSession_result:
  "(\<exists>ident s. fst (createSession e p w) = Returned ident s) \<or> fst (createSession e p w) = Thrown"
  by (simp add: createSession_unfold Let_def split: option.splits)

lemma createSession_existing:
  "sessions w ident = Some s \<Longrightarrow> ident \<noteq> [] \<Longrightarrow> createSession e (Some ident) w = (Returned ident s, w)"
  by (simp add: createSession_unfold or_random_def truthy_def)

lemma createSession_returned_entry:
  "createSession e p w = (Returned ident s, w') \<Longrightarrow> sessions w' ident = Some s \<and> ident = or_random p e"
  by (auto simp: createSession_unfold Let_def split: option.splits if_splits)

lemma createSession_server_existing:
  "ssessions w ident = Some k \<Longrightarrow> createSession_server e (Some ident) w = (SReturned k, w)"
  by (simp add: createSession_server_unfold)

lemma cs_step_registry:
  "cs_step e t w = (t', w') \<Longrightarrow> \<forall>i s. t' \<noteq> Returned i s \<Longrightarrow> sessions w' = sessions w"
  by (cases t) (auto simp: Let_def split: option.splits if_splits)

lemma scs_step_registry:
  "scs_step e t w = (t', w') \<Longrightarrow> \<forall>k. t' \<noteq> SReturned k \<Longrightarrow> ssessions w' = ssessions w"
  by (cases t) (auto simp: Let_def split: option.splits if_splits)

lemma sockets_for_append [simp]: "sockets_for i (xs @ ys) = sockets_for i xs + sockets_for i ys"
  by (simp add: sockets_for_def)

lemma one_each_create: "one_each i w \<Longrightarrow> one_each i (snd (createSession e p w))"
  unfolding one_each_def createSession_unfold
  by (cases "i = or_random p e") (auto simp: Let_def sockets_for_def split: option.splits)

lemma one_each_emit: "one_each i w \<Longrightarrow> one_each i (on_connection_update j k u now w)"
  unfolding one_each_def on_connection_update_def
  by (auto simp: Let_def split: option.splits)

lemma one_each_seq: "one_each i w \<Longrightarrow> one_each i (seq_run as w)"
proof (induction as arbitrary: w)
  case Nil
  then show ?case by simp
next
  case (Cons a as)
  then show ?case by (cases a) (simp_all add: one_each_create one_each_emit)
qed

lemma one_each_world0: "one_each i world0"
  by (simp add: one_each_def world0_def sockets_for_def)

text \<open>
  C2, as the code has it. A call that finds an entry for its identifier returns that entry's
  fields, socket included, and changes nothing: no provider call, no new socket; this holds
  in \<^verbatim>\<open>ban-md.js\<close> and in \<^verbatim>\<open>server.js\<close>. Hence a second call made after the first has
  returned gets the same socket, and in any run of \<^verbatim>\<open>ban-md.js\<close> in which the calls of
  \<^verbatim>\<open>createSession\<close> do not overlap at most one socket is made per identifier. (An
  identifier is a non-empty string; an empty or missing one stands for "generate one".
  \<^verbatim>\<open>ban-md.js\<close> returns a fresh copy \<^verbatim>\<open>{ id, ...s }\<close> of the entry's fields on each call,
  \<^verbatim>\<open>server.js\<close> the socket itself.)
\<close>

theorem createSession_idempotent_without_overlap:
  assumes "ident \<noteq> []"
  shows "(sessions w ident = Some s \<longrightarrow> createSession e (Some ident) w = (Returned ident s, w))
       \<and> (ssessions sw ident = Some k \<longrightarrow> createSession_server e (Some ident) sw = (SReturned k, sw))
       \<and> (createSession e1 (Some ident) w = (Returned i1 s1, w1)
            \<longrightarrow> createSession e2 (Some ident) w1 = (Returned ident s1, w1))
       \<and> sockets_for ident (calls (seq_run as world0)) \<le> 1"
proof -
  have a: "sessions w ident = Some s \<longrightarrow> createSession e (Some ident) w = (Returned ident s, w)"
    using assms by (simp add: createSession_existing)
  have b: "ssessions sw ident = Some k \<longrightarrow> createSession_server e (Some ident) sw = (SReturned k, sw)"
    by (simp add: createSession_server_existing)
  have c: "createSession e1 (Some ident) w = (Returned i1 s1, w1)
            \<longrightarrow> createSession e2 (Some ident) w1 = (Returned ident s1, w1)"
  proof
    assume r: "createSession e1 (Some ident) w = (Returned i1 s1, w1)"
    from createSession_returned_entry [OF r] assms
    have "sessions w1 ident = Some s1" by (auto simp: or_random_def truthy_def)
    then show "createSession e2 (Some ident) w1 = (Returned ident s1, w1)"
      using assms by (simp add: createSession_existing)
  qed
  have "one_each ident (seq_run as world0)"
    by (rule one_each_seq [OF one_each_world0])
  then have d: "sockets_for ident (calls (seq_run as world0)) \<le> 1"
    by (simp add: one_each_def split: if_splits)
  from a b c d show ?thesis by blast
qed

theorem createSession_idempotent_without_overlap_witness:
  "createSession env_down (Some ''s1'') (seq_run [Create env_ok (Some ''s1'')] world0)
     = (Returned ''s1'' (new_session 0), seq_run [Create env_ok (Some ''s1'')] world0)
   \<and> sockets_for ''s1'' (calls (seq_run [Create env_ok (Some ''s1''), Create env_ok (Some ''s1'')] world0)) \<le> 1"
proof -
  have ne: "''s1'' \<noteq> []" by simp
  have en: "sessions (seq_run [Create env_ok (Some ''s1'')] world0) ''s1'' = Some (new_session 0)"
    by (simp add: createSession_unfold or_random_def truthy_def env_ok_def world0_def Let_def)
  from createSession_idempotent_without_overlap [OF ne,
      of "seq_run [Create env_ok (Some ''s1'')] world0" "new_session 0" env_down
         _ _ _ _ _ _ _ "[Create env_ok (Some ''s1''), Create env_ok (Some ''s1'')]"] en
  show ?thesis by blast
qed

text \<open>
  C2 as stated fails: two calls for \<^verbatim>\<open>"s1"\<close> that are advanced in turn both pass the lookup
  before either stores its entry, each makes a socket of its own, and they return sessions
  with different sockets.
\<close>

theorem createSession_overlap_makes_two_sockets:
  "fst race = [Returned ''s1'' (new_session 0), Returned ''s1'' (new_session 1)]
   \<and> sockets_for ''s1'' (calls (snd race)) = 2"
  by (simp add: race_def env_ok_def world0_def or_random_def truthy_def sockets_for_def Let_def)

text \<open>
  C9. A call of \<^verbatim>\<open>createSession\<close> that throws leaves the registry as it was, in
  \<^verbatim>\<open>ban-md.js\<close> and in \<^verbatim>\<open>server.js\<close>; and so does every single step of a call that does
  not end in a return, whatever other calls run in between. The operations that can throw
  are the three that construct the connection handle (\<^verbatim>\<open>useMultiFileAuthState\<close>,
  \<^verbatim>\<open>fetchLatestBaileysVersion\<close>, \<^verbatim>\<open>makeWASocket\<close>); \<^verbatim>\<open>sessions.set\<close> comes after all
  of them.
\<close>

theorem createSession_failure_leaves_registry:
  "(fst (createSession e p w) = Thrown \<longrightarrow> sessions (snd (createSession e p w)) = sessions w)
   \<and> (fst (createSession_server e p sw) = SThrown
        \<longrightarrow> ssessions (snd (createSession_server e p sw)) = ssessions sw)
   \<and> (cs_step e t w = (t', w') \<and> (\<forall>i s. t' \<noteq> Returned i s) \<longrightarrow> sessions w' = sessions w)
   \<and> (scs_step e st sw = (st', sw') \<and> (\<forall>k. st' \<noteq> SReturned k) \<longrightarrow> ssessions sw' = ssessions sw)"
proof -
  have a: "fst (createSession e p w) = Thrown \<longrightarrow> sessions (snd (createSession e p w)) = sessions w"
    by (simp add: createSession_unfold Let_def split: option.splits)
  have b: "fst (createSession_server e p sw) = SThrown
        \<longrightarrow> ssessions (snd (createSession_server e p sw)) = ssessions sw"
    by (simp add: createSession_server_unfold Let_def split: option.splits)
  have c: "cs_step e t w = (t', w') \<and> (\<forall>i s. t' \<noteq> Returned i s) \<longrightarrow> sessions w' = sessions w"
    using cs_step_registry by blast
  have d: "scs_step e st sw = (st', sw') \<and> (\<forall>k. st' \<noteq> SReturned k) \<longrightarrow> ssessions sw' = ssessions sw"
    using scs_step_registry by blast
  from a b c d show ?thesis by blast
qed

theorem createSession_failure_leaves_registry_witness:
  "fst (createSession env_down (Some ''s1'') world0) = Thrown
   \<and> sessions (snd (createSession env_down (Some ''s1'') world0)) = sessions world0
   \<and> fst (createSession_server env_down (Some ''s1'') sworld0) = SThrown
   \<and> ssessions (snd (createSession_server env_down (Some ''s1'') sworld0)) = ssessions sworld0"
proof -
  have a: "fst (createSession env_down (Some ''s1'') world0) = Thrown"
    by (simp add: createSession_unfold or_random_def truthy_def env_down_def env_ok_def world0_def)
  have b: "fst (createSession_server env_down (Some ''s1'') sworld0) = SThrown"
    by (simp add: createSession_server_unfold env_down_def env_ok_def sworld0_def)
  from a b createSession_failure_leaves_registry [of env_down "Some ''s1''" world0 sworld0]
  show ?thesis by blast
qed

text \<open>
  C10. In \<^verbatim>\<open>server.js\<close>, after the listener has handled an update with
  \<^verbatim>\<open>connection === "close"\<close> the session has no entry. The next \<^verbatim>\<open>createSession\<close> for the
  identifier therefore never returns a socket made earlier (all of them have serial numbers
  below \<open>snext_sock\<close>), the closed one included; and when the provider's three operations
  succeed it makes a new socket, stores it and returns it.
\<close>

theorem close_event_evicts_session:
  assumes "u_connection u = Some ''close''"
  shows "ssessions (on_connection_update_server sessionId u w) sessionId = None
       \<and> (k0 < snext_sock w \<longrightarrow>
            fst (createSession_server e (Some sessionId) (on_connection_update_server sessionId u w))
              \<noteq> SReturned k0)
       \<and> (auth_ok e \<and> version_ok e \<and> socket_ok e \<longrightarrow>
            fst (createSession_server e (Some sessionId) (on_connection_update_server sessionId u w))
              = SReturned (snext_sock w)
            \<and> ssessions (snd (createSession_server e (Some sessionId)
                  (on_connection_update_server sessionId u w))) sessionId = Some (snext_sock w)
            \<and> MakeWASocket sessionId (Some (snext_sock w))
                \<in> set (scalls (snd (createSession_server e (Some sessionId)
                  (on_connection_update_server sessionId u w)))))"
  using assms
  by (simp add: on_connection_update_server_def createSession_server_unfold Let_def)

theorem close_event_evicts_session_witness:
  "ssessions (on_connection_update_server ''s1'' \<lparr>u_qr = None, u_connection = Some ''close''\<rparr>
       (snd (createSession_server env_ok (Some ''s1'') sworld0))) ''s1'' = None
   \<and> fst (createSession_server env_ok (Some ''s1'')
       (on_connection_update_server ''s1'' \<lparr>u_qr = None, u_connection = Some ''close''\<rparr>
          (snd (createSession_server env_ok (Some ''s1'') sworld0)))) = SReturned 1"
proof -
  have c: "u_connection \<lparr>u_qr = None, u_connection = Some ''close''\<rparr> = Some ''close''" by simp
  have n: "snext_sock (snd (createSession_server env_ok (Some ''s1'') sworld0)) = 1"
    by (simp add: createSession_server_unfold env_ok_def sworld0_def Let_def)
  have ok: "auth_ok env_ok \<and> version_ok env_ok \<and> socket_ok env_ok" by (simp add: env_ok_def)
  from close_event_evicts_session [OF c, of "''s1''"
      "snd (createSession_server env_ok (Some ''s1'') sworld0)" 0 env_ok] n ok
  show ?thesis by simp
qed

section \<open>The pairing-code request: results\<close>

lemma strip_non_digits_digits: "list_all digit (strip_non_digits s)"
  by (simp add: strip_non_digits_def list_all_iff)

lemma length_code8: "length (code8 raw) = 8"
  by (simp add: code8_def padEnd_def)

lemma digit_zero: "digit (CHR ''0'')"
  by (simp add: digit_def)

lemma code8_digits: "list_all digit (code8 raw)"
proof -
  have "list_all digit (padEnd 8 (CHR ''0'') (strip_non_digits raw))"
    using strip_non_digits_digits [of raw] digit_zero by (auto simp: padEnd_def list_all_iff)
  then show ?thesis
    unfolding code8_def list_all_iff by (meson in_set_takeD)
qed

text \<open>
  C7. In \<^verbatim>\<open>ban-md.js\<close> and \<^verbatim>\<open>part_000\<close>, a phone argument with no digit in it is answered
  with the "Valid phone required" error body, and nothing else happens: \<^verbatim>\<open>createSession\<close>
  is not called, the registry is as before, and the log of provider calls is as before, so
  \<^verbatim>\<open>sock.requestPairingCode\<close> was not invoked.
\<close>

theorem pair_rejects_phone_without_digits:
  assumes "strip_non_digits phone = []"
  shows "pair v e sessionId phone answer w = (Some (ReplyError (phone_msg v)), w)
       \<and> calls (snd (pair v e sessionId phone answer w)) = calls w"
  using assms by (simp add: pair_def)

theorem pair_rejects_phone_without_digits_witness:
  "strip_non_digits ''+ ( ) -'' = []
   \<and> pair BanMd env_ok ''s1'' ''+ ( ) -'' (Inr ''12345678'') world0
       = (Some (ReplyError ''Valid phone required (include country code, digits only)''), world0)"
proof -
  have h: "strip_non_digits ''+ ( ) -'' = []"
    by (simp add: strip_non_digits_def digit_def)
  from h pair_rejects_phone_without_digits [OF h, of BanMd env_ok "''s1''" "Inr ''12345678''" world0]
  show ?thesis by simp
qed

text \<open>
  C6, as the code has it. The \<^verbatim>\<open>/pair\<close> handler of \<^verbatim>\<open>part_003\<close> delivers the raw code
  normalised: its digits, in order, followed by zeros up to eight characters, cut after the
  eighth. The result has exactly eight characters, all of them digits, and the raw code
  \<^verbatim>\<open>"123"\<close> gives \<^verbatim>\<open>"12300000"\<close>.
\<close>

theorem part003_code_is_eight_digits:
  "length (code8 raw) = 8
   \<and> list_all digit (code8 raw)
   \<and> code8 raw = take 8 (filter digit raw @ replicate (8 - length (filter digit raw)) (CHR ''0''))
   \<and> code8 ''123'' = ''12300000''
   \<and> (truthy phone \<longrightarrow> pair_part003 phone True True (Inr raw) = Some (ReplyCode (code8 raw)))"
proof -
  have a: "code8 raw = take 8 (filter digit raw @ replicate (8 - length (filter digit raw)) (CHR ''0''))"
    by (simp add: code8_def padEnd_def strip_non_digits_def)
  have b: "code8 ''123'' = ''12300000''"
    by (simp add: code8_def padEnd_def strip_non_digits_def digit_def eval_nat_numeral)
  have c: "truthy phone \<longrightarrow> pair_part003 phone True True (Inr raw) = Some (ReplyCode (code8 raw))"
    by (simp add: pair_part003_def)
  from length_code8 [of raw] code8_digits [of raw] a b c show ?thesis by blast
qed

theorem part003_code_is_eight_digits_witness:
  "pair_part003 (Some ''1234567890'') True True (Inr ''12-34'') = Some (ReplyCode ''12340000'')
   \<and> pair_part003 (Some ''1234567890'') True True (Inr ''123 456 789'') = Some (ReplyCode ''12345678'')"
proof -
  have t: "truthy (Some ''1234567890'')" by (simp add: truthy_def)
  have a: "code8 ''12-34'' = ''12340000''"
    by (simp add: code8_def padEnd_def strip_non_digits_def digit_def eval_nat_numeral)
  have b: "code8 ''123 456 789'' = ''12345678''"
    by (simp add: code8_def padEnd_def strip_non_digits_def digit_def eval_nat_numeral)
  from t a b
    part003_code_is_eight_digits [of "''12-34''" "Some ''1234567890''"]
    part003_code_is_eight_digits [of "''123 456 789''" "Some ''1234567890''"]
  show ?thesis by simp
qed

text \<open>
  C6 as stated fails in \<^verbatim>\<open>ban-md.js\<close> (and in \<^verbatim>\<open>part_000\<close>, whose handler is the same):
  the code the provider returns is put in the body as it is, so the raw code \<^verbatim>\<open>"123"\<close> is
  delivered as \<^verbatim>\<open>"123"\<close>, three characters long.
\<close>

theorem banmd_pair_delivers_raw_code:
  "fst (pair BanMd env_ok ''s1'' ''1234567890'' (Inr ''123'') world0) = Some (ReplyCode ''123'')
   \<and> fst (pair Part000 env_ok ''s1'' ''1234567890'' (Inr ''123'') world0) = Some (ReplyCode ''123'')
   \<and> length ''123'' \<noteq> (8::nat)"
  by (simp add: pair_def strip_non_digits_def digit_def createSession_unfold or_random_def
      truthy_def env_ok_def world0_def new_session_def Let_def)

section \<open>The QR request: results\<close>

lemma truthy_Some: "truthy v \<Longrightarrow> \<exists>q. v = Some q \<and> q \<noteq> []"
  by (cases v) (simp_all add: truthy_def)

lemma from_updates_fire_due: "from_updates U r \<Longrightarrow> from_updates U (fire_due v t r)"
  by (auto simp: from_updates_def fire_due_def timeout_cb_def send_def reply_json_def Let_def
      split: option.splits)

lemma from_updates_handler_open: "from_updates U r \<Longrightarrow> from_updates U (handler_open v t u r)"
  by (auto simp: from_updates_def handler_open_def send_def reply_json_def Let_def)

lemma from_updates_handler:
  "from_updates U r \<Longrightarrow> u \<in> U \<Longrightarrow> from_updates U (handler v t u r)"
  unfolding handler_def
  by (auto simp: from_updates_handler_open) (auto simp: from_updates_def)

lemma from_updates_resume: "from_updates U r \<Longrightarrow> from_updates U (resume v t ok r)"
proof (cases "awaited r")
  case Nil
  then show "from_updates U r \<Longrightarrow> ?thesis" by (simp add: resume_def)
next
  case (Cons p ps)
  assume inv: "from_updates U r"
  from inv Cons obtain u where u: "u \<in> U" "p = EncodeEvent u" "truthy (u_qr u)"
    by (auto simp: from_updates_def)
  from truthy_Some [OF u(3)] obtain q where q: "u_qr u = Some q" by blast
  have rest: "from_updates U (r\<lparr>awaited := ps\<rparr>)"
    using inv Cons by (auto simp: from_updates_def)
  have "from_updates U (send v t (ReplyQR q) (r\<lparr>awaited := ps\<rparr>))"
    using rest u(1) q by (auto simp: from_updates_def send_def reply_json_def Let_def)
  then have "from_updates U (handler_open v t u (send v t (ReplyQR q) (r\<lparr>awaited := ps\<rparr>)))"
    by (rule from_updates_handler_open)
  with rest show ?thesis
    using Cons u(2) q by (simp add: resume_def)
qed

lemma from_updates_on_event:
  "from_updates U r \<Longrightarrow> set (updates_of [(t, ev)]) \<subseteq> U \<Longrightarrow> from_updates U (on_event v t ev r)"
proof (cases ev)
  case (ConnectionUpdate u)
  assume inv: "from_updates U r" and sub: "set (updates_of [(t, ev)]) \<subseteq> U"
  have "from_updates U (r\<lparr>registered := False\<rparr>)"
    using inv by (simp add: from_updates_def)
  then show ?thesis
    using inv sub ConnectionUpdate by (simp add: from_updates_handler)
next
  case (Encoded ok)
  then show "from_updates U r \<Longrightarrow> ?thesis" by (simp add: from_updates_resume)
next
  case (UserIs usr)
  then show "from_updates U r \<Longrightarrow> ?thesis" by (simp add: from_updates_def)
qed

lemma updates_of_Cons: "set (updates_of (x # es)) = set (updates_of [x]) \<union> set (updates_of es)"
  by (cases x, cases "snd x") auto

lemma from_updates_run:
  "from_updates U r \<Longrightarrow> set (updates_of es) \<subseteq> U \<Longrightarrow> from_updates U (run v es r)"
proof (induction es arbitrary: r)
  case Nil
  then show ?case by simp
next
  case (Cons x es)
  obtain t ev where x: "x = (t, ev)" by (cases x)
  from Cons.prems(2) have sub: "set (updates_of [(t, ev)]) \<subseteq> U" "set (updates_of es) \<subseteq> U"
    unfolding x using updates_of_Cons [of "(t, ev)" es] by auto
  have "from_updates U (on_event v t ev (fire_due v t r))"
    by (rule from_updates_on_event [OF from_updates_fire_due [OF Cons.prems(1)] sub(1)])
  from Cons.IH [OF this sub(2)] show ?case by (simp add: x)
qed

text \<open>
  C3, as the code has it. Let a session be registered under \<open>ident\<close> and let its socket's
  \<^verbatim>\<open>user\<close> be set. Then a QR request that asks for \<open>ident\<close> is answered at once with the
  "logged in" body and that user: no listener is registered, no timer is set, nothing is
  awaited, and the registry and the log of provider calls are as before. A pairing request
  for \<open>ident\<close> whose phone argument holds at least one digit is answered with the
  "Already logged in" body and that user; and whatever the phone argument is, the request
  leaves the registry and the log as they were, so \<^verbatim>\<open>sock.requestPairingCode\<close> was not
  invoked.
\<close>

theorem logged_in_session_short_circuits:
  assumes "sessions w ident = Some s" and "sock_user w (s_sock s) = Some usr" and "ident \<noteq> []"
  shows "(wanted_id p = Some ident \<longrightarrow>
            getQR v e p now w =
              (\<lparr>responded = False, registered = False, timer = None, awaited = [],
                r_user = Some usr, sent = [(now, ReplyLoggedIn (login_msg v) (Some usr))]\<rparr>, w))
       \<and> (strip_non_digits phone \<noteq> [] \<longrightarrow>
            pair v e ident phone answer w = (Some (ReplyLoggedIn ''Already logged in'' (Some usr)), w))
       \<and> snd (pair v e ident phone answer w) = w"
  using assms
  by (simp add: getQR_def pair_def createSession_existing req0_def reply_json_def Let_def)

theorem logged_in_session_short_circuits_witness:
  "getQR Part000 env_down (Some ''s1'') 5000 world_me =
     (\<lparr>responded = False, registered = False, timer = None, awaited = [],
       r_user = Some ''256700000000@s.whatsapp.net'',
       sent = [(5000, ReplyLoggedIn ''Logged in'' (Some ''256700000000@s.whatsapp.net''))]\<rparr>, world_me)
   \<and> pair Part000 env_down ''s1'' ''+256 700 000000'' (Inr ''12345678'') world_me =
       (Some (ReplyLoggedIn ''Already logged in'' (Some ''256700000000@s.whatsapp.net'')), world_me)"
proof -
  have a: "sessions world_me ''s1'' = Some (new_session 0)"
    by (simp add: world_me_def createSession_unfold or_random_def truthy_def env_me_def env_ok_def
        world0_def Let_def)
  have b: "sock_user world_me (s_sock (new_session 0)) = Some ''256700000000@s.whatsapp.net''"
    by (simp add: world_me_def createSession_unfold or_random_def truthy_def env_me_def env_ok_def
        world0_def new_session_def Let_def)
  have c: "''s1'' \<noteq> []" by simp
  have d: "wanted_id (Some ''s1'') = Some ''s1''" by (simp add: wanted_id_def truthy_def)
  have f: "strip_non_digits ''+256 700 000000'' \<noteq> []"
    by (simp add: strip_non_digits_def digit_def)
  from d f logged_in_session_short_circuits [OF a b c,
      of "Some ''s1''" Part000 env_down 5000 "''+256 700 000000''" "Inr ''12345678''"]
  show ?thesis by simp
qed

text \<open>
  C3 as stated fails for the pairing request: the phone argument is checked before the
  session is looked at, so a logged-in session asked for a code with a phone argument that
  holds no digit gets the "Valid phone required" error, not the "Already logged in" body.
\<close>

theorem logged_in_pair_without_digits_gets_phone_error:
  "sessions world_me ''s1'' = Some (new_session 0)
   \<and> sock_user world_me (s_sock (new_session 0)) = Some ''256700000000@s.whatsapp.net''
   \<and> fst (pair BanMd env_ok ''s1'' ''+'' (Inr ''12345678'') world_me)
       = Some (ReplyError ''Valid phone required (include country code, digits only)'')
   \<and> fst (pair Part000 env_ok ''s1'' ''n/a'' (Inr ''12345678'') world_me)
       = Some (ReplyError ''Valid phone required (include country code digits only)'')"
  by (simp add: world_me_def createSession_unfold or_random_def truthy_def env_me_def env_ok_def
      world0_def new_session_def Let_def pair_def strip_non_digits_def digit_def)

text \<open>
  The cache only ever holds what the listener of \<^verbatim>\<open>createSession\<close> wrote under
  \<^verbatim>\<open>if (update.qr)\<close>: in every world reached from the empty one, a cached payload is a
  non-empty string.
\<close>

lemma cache_ok_create: "cache_ok w \<Longrightarrow> cache_ok (snd (createSession e p w))"
  unfolding cache_ok_def createSession_unfold
  by (auto simp: Let_def new_session_def split: option.splits)

lemma cache_ok_emit: "cache_ok w \<Longrightarrow> cache_ok (on_connection_update j k u now w)"
  unfolding cache_ok_def on_connection_update_def
  by (auto simp: Let_def split: option.splits if_splits)

lemma cache_ok_seq_run: "cache_ok w \<Longrightarrow> cache_ok (seq_run as w)"
proof (induction as arbitrary: w)
  case Nil
  then show ?case by simp
next
  case (Cons a as)
  then show ?case by (cases a) (simp_all add: cache_ok_create cache_ok_emit)
qed

lemma cache_ok_reachable: "cache_ok (seq_run as world0)"
  by (rule cache_ok_seq_run) (simp add: cache_ok_def world0_def)

lemma wanted_id_Some: "wanted_id p = Some ident \<Longrightarrow> p = Some ident \<and> ident \<noteq> []"
  by (auto simp: wanted_id_def truthy_def split: if_splits option.splits)

lemma getQR_existing:
  assumes "sessions w ident = Some s" and "wanted_id p = Some ident"
  shows "getQR v e p now w =
     (let usr = sock_user w (s_sock s) in
      if usr \<noteq> None
      then (reply_json now (ReplyLoggedIn (login_msg v) usr) (req0 usr), w)
      else if truthy (lastQR s) \<and> now - lastQRAt s < 60000
      then ((req0 usr)\<lparr>awaited := [EncodeCached (the (lastQR s))]\<rparr>, w)
      else ((req0 usr)\<lparr>registered := True, timer := Some (now + qr_timeout v)\<rparr>,
            w\<lparr>calls := calls w @ [EvOnce (s_sock s) ''connection.update'']\<rparr>))"
  using assms wanted_id_Some [OF assms(2)]
  by (simp add: getQR_def createSession_existing Let_def)

text \<open>
  C4. Let a session be registered under \<open>ident\<close>, not logged in, with cached payload \<open>q\<close>
  (a non-empty string, as every cached payload is), and let a QR request ask for \<open>ident\<close>
  at instant \<open>now\<close>.
  \<^item> If \<open>now - lastQRAt < 60000\<close>, the request registers no listener, sets no timer and
    makes no provider call; the one thing it awaits is the encoding of \<open>q\<close> as an image,
    and when that resolves it replies with \<open>q\<close>.
  \<^item> If \<open>60000 \<le> now - lastQRAt\<close>, the request does not touch the cache: it awaits no
    encoding and has sent nothing when it starts to wait, and whatever happens next, every
    QR reply it makes carries the payload of an update that the socket emitted during the
    wait.
\<close>

theorem fresh_cached_qr_is_served_stale_is_not:
  assumes "sessions w ident = Some s" and "wanted_id p = Some ident"
      and "sock_user w (s_sock s) = None" and "lastQR s = Some q" and "q \<noteq> []"
  shows "(now - lastQRAt s < 60000 \<longrightarrow>
            getQR v e p now w =
              (\<lparr>responded = False, registered = False, timer = None, awaited = [EncodeCached q],
                r_user = None, sent = []\<rparr>, w)
            \<and> sent (run v [(t, Encoded True)] (fst (getQR v e p now w))) = [(t, ReplyQR q)])
       \<and> (60000 \<le> now - lastQRAt s \<longrightarrow>
            awaited (fst (getQR v e p now w)) = [] \<and> sent (fst (getQR v e p now w)) = []
            \<and> (\<forall>x \<in> set (sent (run v es (fst (getQR v e p now w)))).
                  \<forall>q'. snd x = ReplyQR q' \<longrightarrow> Some q' \<in> u_qr ` set (updates_of es)))"
proof (intro conjI impI)
  assume fresh: "now - lastQRAt s < 60000"
  show g: "getQR v e p now w =
              (\<lparr>responded = False, registered = False, timer = None, awaited = [EncodeCached q],
                r_user = None, sent = []\<rparr>, w)"
    using assms fresh by (simp add: getQR_existing [OF assms(1,2)] truthy_def req0_def)
  show "sent (run v [(t, Encoded True)] (fst (getQR v e p now w))) = [(t, ReplyQR q)]"
    by (simp add: g fire_due_def resume_def send_def reply_json_def)
next
  assume stale: "60000 \<le> now - lastQRAt s"
  have g: "fst (getQR v e p now w) =
             \<lparr>responded = False, registered = True, timer = Some (now + qr_timeout v),
               awaited = [], r_user = None, sent = []\<rparr>"
    using assms stale by (simp add: getQR_existing [OF assms(1,2)] req0_def)
  show "awaited (fst (getQR v e p now w)) = []" by (simp add: g)
  show "sent (fst (getQR v e p now w)) = []" by (simp add: g)
  have "from_updates (set (updates_of es)) (fst (getQR v e p now w))"
    by (simp add: g from_updates_def)
  then have "from_updates (set (updates_of es)) (run v es (fst (getQR v e p now w)))"
    by (rule from_updates_run) simp
  then show "\<forall>x \<in> set (sent (run v es (fst (getQR v e p now w)))).
                  \<forall>q'. snd x = ReplyQR q' \<longrightarrow> Some q' \<in> u_qr ` set (updates_of es)"
    unfolding from_updates_def by (metis image_eqI)
qed

theorem fresh_cached_qr_is_served_stale_is_not_witness:
  "getQR BanMd env_down (Some ''s1'') 2000 world_qr =
     (\<lparr>responded = False, registered = False, timer = None, awaited = [EncodeCached ''Q1''],
       r_user = None, sent = []\<rparr>, world_qr)
   \<and> sent (run BanMd [(2005, Encoded True)] (fst (getQR BanMd env_down (Some ''s1'') 2000 world_qr)))
       = [(2005, ReplyQR ''Q1'')]
   \<and> awaited (fst (getQR BanMd env_down (Some ''s1'') 61000 world_qr)) = []
   \<and> sent (fst (getQR BanMd env_down (Some ''s1'') 61000 world_qr)) = []"
proof -
  have a: "sessions world_qr ''s1'' = Some ((new_session 0)\<lparr>lastQR := Some ''Q1'', lastQRAt := 1000\<rparr>)"
    by (simp add: world_qr_def createSession_unfold on_connection_update_def or_random_def
        truthy_def env_ok_def world0_def new_session_def Let_def)
  have b: "wanted_id (Some ''s1'') = Some ''s1''"
    by (simp add: wanted_id_def truthy_def)
  have c: "sock_user world_qr (s_sock ((new_session 0)\<lparr>lastQR := Some ''Q1'', lastQRAt := 1000\<rparr>)) = None"
    by (simp add: world_qr_def createSession_unfold on_connection_update_def or_random_def
        truthy_def env_ok_def world0_def new_session_def Let_def)
  have d: "lastQR ((new_session 0)\<lparr>lastQR := Some ''Q1'', lastQRAt := 1000\<rparr>) = Some ''Q1''"
    by simp
  have f: "''Q1'' \<noteq> []" by simp
  have t: "lastQRAt ((new_session 0)\<lparr>lastQR := Some ''Q1'', lastQRAt := 1000\<rparr>) = 1000"
    by simp
  have fr: "(2000::int) - 1000 < 60000" and st: "(60000::int) \<le> 61000 - 1000"
    by simp_all
  from fr st fresh_cached_qr_is_served_stale_is_not [OF a b c d f,
      where now = 2000 and v = BanMd and e = env_down and t = 2005]
    fresh_cached_qr_is_served_stale_is_not [OF a b c d f,
      where now = 61000 and v = BanMd and e = env_down and es = "[]"]
  show ?thesis unfolding t by blast
qed

section \<open>The QR request: the timeout\<close>

lemma waiting_quiet_step:
  assumes "waiting d r" and "t < d" and "quiet ev"
  shows "waiting d (on_event v t ev (fire_due v t r))"
proof -
  have f: "fire_due v t r = r"
    using assms(1,2) by (simp add: waiting_def fire_due_def)
  show ?thesis
  proof (cases ev)
    case (ConnectionUpdate u)
    then show ?thesis
      using assms(1,3) by (simp add: f waiting_def handler_def handler_open_def)
  next
    case (Encoded ok)
    then show ?thesis
      using assms(1) by (simp add: f waiting_def resume_def)
  next
    case (UserIs usr)
    then show ?thesis
      using assms(1) by (simp add: f waiting_def)
  qed
qed

lemma waiting_quiet_run:
  "waiting d r \<Longrightarrow> \<forall>x \<in> set es. fst x < d \<and> quiet (snd x) \<Longrightarrow> waiting d (run v es r)"
proof (induction es arbitrary: r)
  case Nil
  then show ?case by simp
next
  case (Cons x es)
  obtain t ev where x: "x = (t, ev)" by (cases x)
  from Cons.prems(2) have "t < d" "quiet ev" by (simp_all add: x)
  from waiting_quiet_step [OF Cons.prems(1) this]
  have "waiting d (on_event v t ev (fire_due v t r))" .
  moreover from Cons.prems(2) have "\<forall>x \<in> set es. fst x < d \<and> quiet (snd x)" by simp
  ultimately show ?case using Cons.IH by (simp add: x)
qed

lemma waiting_fire_due:
  "waiting d r \<Longrightarrow> sent (fire_due v T r) = (if T < d then [] else [(d, ReplyError qr_wait_msg)])"
  by (simp add: waiting_def fire_due_def timeout_cb_def send_def reply_json_def)

text \<open>
  C5. Take a QR request made at instant \<open>now\<close> for which \<^verbatim>\<open>createSession\<close> returns a
  session that is not logged in and has no fresh cached payload, and let every event handled
  before the bound \<open>now + qr_timeout v\<close> be quiet: no update with a QR payload and none that
  reports the connection open. Then, observed at any instant \<open>T\<close>, the request has sent
  nothing if \<open>T\<close> is before the bound, and exactly one reply otherwise: the "QR not available
  yet" error, made at the bound. The bound is the constant passed to \<^verbatim>\<open>setTimeout\<close>:
  25000 ms in \<^verbatim>\<open>part_000\<close>, 10000 ms in \<^verbatim>\<open>ban-md.js\<close>. (The timer's callback is taken
  to run at the instant it is due, which is the earliest instant the runtime runs it.)
\<close>

theorem quiet_wait_times_out_at_the_bound:
  assumes "createSession e (wanted_id p) w = (Returned ident s, w')"
      and "sock_user w' (s_sock s) = None"
      and "\<not> (truthy (lastQR s) \<and> now - lastQRAt s < 60000)"
      and "\<forall>x \<in> set es. fst x < now + qr_timeout v \<and> quiet (snd x)"
  shows "sent (run_until v T es (fst (getQR v e p now w))) =
           (if T < now + qr_timeout v then []
            else [(now + qr_timeout v, ReplyError ''QR not available yet. Tap again.'')])
         \<and> qr_timeout Part000 = 25000 \<and> qr_timeout BanMd = 10000"
proof -
  have g: "fst (getQR v e p now w) =
             (req0 None)\<lparr>registered := True, timer := Some (now + qr_timeout v)\<rparr>"
    using assms(1,2,3) by (auto simp: getQR_def Let_def)
  have "waiting (now + qr_timeout v) (fst (getQR v e p now w))"
    by (simp add: g waiting_def req0_def)
  from waiting_quiet_run [OF this assms(4)]
  have "waiting (now + qr_timeout v) (run v es (fst (getQR v e p now w)))" .
  from waiting_fire_due [OF this, of v T] show ?thesis
    by (simp add: run_until_def qr_wait_msg_def)
qed

theorem quiet_wait_times_out_at_the_bound_witness:
  "sent (run_until Part000 24999 [(3000, ConnectionUpdate \<lparr>u_qr = None, u_connection = Some ''connecting''\<rparr>)]
          (fst (getQR Part000 env_ok (Some ''s1'') 0 world0))) = []
   \<and> sent (run_until Part000 25000 [(3000, ConnectionUpdate \<lparr>u_qr = None, u_connection = Some ''connecting''\<rparr>)]
          (fst (getQR Part000 env_ok (Some ''s1'') 0 world0)))
       = [(25000, ReplyError ''QR not available yet. Tap again.'')]"
proof -
  have a: "createSession env_ok (wanted_id (Some ''s1'')) world0
             = (Returned ''s1'' (new_session 0), snd (createSession env_ok (Some ''s1'') world0))"
    by (simp add: wanted_id_def createSession_unfold or_random_def truthy_def env_ok_def
        world0_def Let_def)
  have b: "sock_user (snd (createSession env_ok (Some ''s1'') world0)) (s_sock (new_session 0)) = None"
    by (simp add: createSession_unfold or_random_def truthy_def env_ok_def world0_def
        new_session_def Let_def)
  have c: "\<not> (truthy (lastQR (new_session 0)) \<and> 0 - lastQRAt (new_session 0) < 60000)"
    by (simp add: new_session_def truthy_def)
  have d: "\<forall>x \<in> set [(3000, ConnectionUpdate \<lparr>u_qr = None, u_connection = Some ''connecting''\<rparr>)].
             fst x < 0 + qr_timeout Part000 \<and> quiet (snd x)"
    by (simp add: truthy_def)
  from quiet_wait_times_out_at_the_bound [OF a b c d, of 24999]
    quiet_wait_times_out_at_the_bound [OF a b c d, of 25000]
  show ?thesis by simp
qed

section \<open>The QR request: one reply, and the listener afterwards\<close>

text \<open>
  \<^verbatim>\<open>server.js\<close> keeps its latch: the timer's callback sets \<^verbatim>\<open>responded\<close> and removes the
  handler, as both branches of the handler do.
\<close>

lemma latched_fire_due_server: "latched r \<Longrightarrow> latched (fire_due_server t r)"
  by (auto simp: latched_def fire_due_server_def timeout_cb_server_def reply_json_def
      split: option.splits)

lemma latched_handler_open_server: "latched r \<Longrightarrow> latched (handler_open_server t u r)"
  by (auto simp: latched_def handler_open_server_def reply_json_def)

lemma latched_handler_server: "latched r \<Longrightarrow> latched (handler_server t u r)"
  unfolding handler_server_def
  by (auto simp: latched_handler_open_server) (auto simp: latched_def)

lemma latched_resume_server: "latched r \<Longrightarrow> latched (resume_server t ok r)"
proof (cases "awaited r")
  case Nil
  then show "latched r \<Longrightarrow> ?thesis" by (simp add: resume_server_def)
next
  case (Cons p ps)
  assume inv: "latched r"
  from inv Cons obtain u where p: "p = EncodeEvent u" by (auto simp: latched_def)
  from inv Cons have r: "responded r" "sent r = []" "ps = []"
    by (auto simp: latched_def)
  show ?thesis
    using Cons p r by (simp add: resume_server_def handler_open_server_def latched_def reply_json_def)
qed

lemma latched_on_event_server: "latched r \<Longrightarrow> latched (on_event_server t ev r)"
proof (cases ev)
  case (ConnectionUpdate u)
  then show "latched r \<Longrightarrow> ?thesis" by (simp add: latched_handler_server)
next
  case (Encoded ok)
  then show "latched r \<Longrightarrow> ?thesis" by (simp add: latched_resume_server)
next
  case (UserIs usr)
  then show "latched r \<Longrightarrow> ?thesis" by (simp add: latched_def)
qed

lemma latched_run_server: "latched r \<Longrightarrow> latched (run_server es r)"
proof (induction es arbitrary: r)
  case Nil
  then show ?case by simp
next
  case (Cons x es)
  obtain t ev where x: "x = (t, ev)" by (cases x)
  from Cons.prems have "latched (on_event_server t ev (fire_due_server t r))"
    by (simp add: latched_on_event_server latched_fire_due_server)
  from Cons.IH [OF this] show ?case by (simp add: x)
qed

lemma latched_getQR_server: "latched (fst (getQR_server e sessionId now w))"
  by (simp add: getQR_server_def latched_def req0_def split: prod.splits stask.splits)

lemma server_replies_at_most_once:
  "length (sent (fire_due_server T (run_server es (fst (getQR_server e sessionId now w))))) \<le> 1"
proof -
  have "latched (fire_due_server T (run_server es (fst (getQR_server e sessionId now w))))"
    by (intro latched_fire_due_server latched_run_server latched_getQR_server)
  then show ?thesis
    by (cases "responded (fire_due_server T (run_server es (fst (getQR_server e sessionId now w))))")
       (simp_all add: latched_def)
qed

lemma latched_replied: "latched r \<Longrightarrow> sent r \<noteq> [] \<Longrightarrow> \<not> registered r \<and> responded r"
  by (cases "sent r"; cases "awaited r"; cases "responded r") (auto simp: latched_def)

lemma server_listener_released:
  assumes "sent (run_server es (fst (getQR_server e sessionId now w))) \<noteq> []"
  shows "\<not> registered (run_server es (fst (getQR_server e sessionId now w)))
       \<and> responded (run_server es (fst (getQR_server e sessionId now w)))"
proof -
  have "latched (run_server es (fst (getQR_server e sessionId now w)))"
    by (intro latched_run_server latched_getQR_server)
  from latched_replied [OF this assms] show ?thesis .
qed

text \<open>
  In \<^verbatim>\<open>ban-md.js\<close> the latch holds in one direction: when the update with the QR payload is
  handled first, the timer's callback finds \<^verbatim>\<open>responded\<close> set and stays silent.
\<close>

lemma banmd_qr_then_timeout_replies_once:
  "map snd (sent (run_until BanMd 10000
      [(9999, ConnectionUpdate \<lparr>u_qr = Some ''Q1'', u_connection = None\<rparr>), (10000, Encoded True)]
      (fst (getQR BanMd env_ok (Some ''s1'') 0 world0)))) = [ReplyQR ''Q1'']"
  by (simp add: run_until_def getQR_def wanted_id_def createSession_unfold or_random_def truthy_def
      env_ok_def world0_def new_session_def req0_def Let_def fire_due_def timeout_cb_def
      handler_def handler_open_def resume_def send_def reply_json_def)

text \<open>
  C1 at its failing input, in \<^verbatim>\<open>ban-md.js\<close> and \<^verbatim>\<open>part_000\<close>. The request for \<^verbatim>\<open>"s1"\<close>
  is made at instant 0 on an empty registry; the timer runs when it is due, and in the same
  tick, after it, the socket emits an update with QR payload \<^verbatim>\<open>"Q1"\<close>. The timer's callback
  replies without setting \<^verbatim>\<open>responded\<close>, the handler is still registered, and it replies
  again: \<^verbatim>\<open>res.json\<close> is called twice for the one request.
\<close>

theorem banmd_timeout_then_qr_replies_twice:
  "map snd (sent (run BanMd
      [(10000, ConnectionUpdate \<lparr>u_qr = Some ''Q1'', u_connection = None\<rparr>), (10000, Encoded True)]
      (fst (getQR BanMd env_ok (Some ''s1'') 0 world0))))
     = [ReplyError ''QR not available yet. Tap again.'', ReplyQR ''Q1'']
   \<and> map snd (sent (run Part000
      [(25000, ConnectionUpdate \<lparr>u_qr = Some ''Q1'', u_connection = None\<rparr>), (25000, Encoded True)]
      (fst (getQR Part000 env_ok (Some ''s1'') 0 world0))))
     = [ReplyError ''QR not available yet. Tap again.'', ReplyQR ''Q1'']"
  by (simp add: getQR_def wanted_id_def createSession_unfold or_random_def truthy_def
      env_ok_def world0_def new_session_def req0_def Let_def fire_due_def timeout_cb_def
      handler_def handler_open_def resume_def send_def reply_json_def qr_wait_msg_def)

text \<open>
  C8 at its failing input, in \<^verbatim>\<open>ban-md.js\<close> and \<^verbatim>\<open>part_000\<close>. A request that ends with
  the timeout reply leaves its handler registered and \<^verbatim>\<open>responded\<close> unset: the handler is
  live. Three requests for \<^verbatim>\<open>"s1"\<close>, each made after the one before has timed out, on a
  socket that emits nothing, leave three live handlers on that socket.
\<close>

theorem banmd_timed_out_requests_leave_live_listeners:
  "map snd (sent (run_until BanMd 10000 [] (fst (getQR BanMd env_ok (Some ''s1'') 0 world0))))
     = [ReplyError ''QR not available yet. Tap again.'']
   \<and> live (run_until BanMd 10000 [] (fst (getQR BanMd env_ok (Some ''s1'') 0 world0)))
   \<and> live_listeners BanMd 40000 (poll BanMd env_ok (Some ''s1'') [0, 11000, 22000] world0) = 3
   \<and> live_listeners Part000 90000 (poll Part000 env_ok (Some ''s1'') [0, 30000, 60000] world0) = 3"
  by (simp add: live_listeners_def live_def run_until_def getQR_def wanted_id_def
      createSession_unfold or_random_def truthy_def env_ok_def world0_def new_session_def req0_def
      Let_def fire_due_def timeout_cb_def send_def reply_json_def qr_wait_msg_def)

end
